theory Spec2Isabelle
  imports Complex_Main
begin

section \<open>JavaScript numbers\<close>

text \<open>
  A JavaScript number is either a finite value, one of the two infinities, or NaN.
  Finite values are modelled by real numbers and arithmetic on them is exact: the
  rounding of IEEE doubles, overflow of finite results to an infinity, and the sign of
  zero are not modelled (a zero divisor is taken as \<open>+0\<close>).  What is modelled is everything the
  source relies on: division by zero gives an infinity or NaN, NaN propagates through
  arithmetic, every comparison with NaN is false, and \<open>0\<close> and NaN are falsy.
\<close>

datatype jsnum = Fin real | PInf | NInf | NaN

fun js_neg :: "jsnum \<Rightarrow> jsnum" where
  "js_neg (Fin a) = Fin (- a)"
| "js_neg PInf = NInf"
| "js_neg NInf = PInf"
| "js_neg NaN = NaN"

fun js_add :: "jsnum \<Rightarrow> jsnum \<Rightarrow> jsnum" where
  "js_add NaN y = NaN"
| "js_add x NaN = NaN"
| "js_add (Fin a) (Fin b) = Fin (a + b)"
| "js_add PInf NInf = NaN"
| "js_add NInf PInf = NaN"
| "js_add PInf y = PInf"
| "js_add x PInf = PInf"
| "js_add NInf y = NInf"
| "js_add x NInf = NInf"

definition js_sub :: "jsnum \<Rightarrow> jsnum \<Rightarrow> jsnum" where
  "js_sub x y = js_add x (js_neg y)"

fun js_mul :: "jsnum \<Rightarrow> jsnum \<Rightarrow> jsnum" where
  "js_mul NaN y = NaN"
| "js_mul x NaN = NaN"
| "js_mul (Fin a) (Fin b) = Fin (a * b)"
| "js_mul (Fin a) PInf = (if a = 0 then NaN else if 0 < a then PInf else NInf)"
| "js_mul (Fin a) NInf = (if a = 0 then NaN else if 0 < a then NInf else PInf)"
| "js_mul PInf (Fin b) = (if b = 0 then NaN else if 0 < b then PInf else NInf)"
| "js_mul NInf (Fin b) = (if b = 0 then NaN else if 0 < b then NInf else PInf)"
| "js_mul PInf PInf = PInf"
| "js_mul PInf NInf = NInf"
| "js_mul NInf PInf = NInf"
| "js_mul NInf NInf = PInf"

fun js_div :: "jsnum \<Rightarrow> jsnum \<Rightarrow> jsnum" where
  "js_div NaN y = NaN"
| "js_div x NaN = NaN"
| "js_div (Fin a) (Fin b) =
     (if b = 0 then (if a = 0 then NaN else if 0 < a then PInf else NInf) else Fin (a / b))"
| "js_div (Fin a) y = Fin 0"
| "js_div PInf (Fin b) = (if b < 0 then NInf else PInf)"
| "js_div NInf (Fin b) = (if b < 0 then PInf else NInf)"
| "js_div x y = NaN"

text \<open>The operators \<open><\<close>, \<open>>=\<close> and \<open><=\<close>.\<close>

fun js_lt :: "jsnum \<Rightarrow> jsnum \<Rightarrow> bool" where
  "js_lt NaN y = False"
| "js_lt x NaN = False"
| "js_lt (Fin a) (Fin b) = (a < b)"
| "js_lt x NInf = False"
| "js_lt PInf y = False"
| "js_lt x y = True"

definition js_le :: "jsnum \<Rightarrow> jsnum \<Rightarrow> bool" where
  "js_le x y = (x \<noteq> NaN \<and> y \<noteq> NaN \<and> \<not> js_lt y x)"

definition js_ge :: "jsnum \<Rightarrow> jsnum \<Rightarrow> bool" where
  "js_ge x y = js_le y x"

text \<open>Truthiness of a number, and \<open>x || y\<close> on numbers.\<close>

definition js_truthy :: "jsnum \<Rightarrow> bool" where
  "js_truthy x = (x \<noteq> NaN \<and> x \<noteq> Fin 0)"

definition js_or :: "jsnum \<Rightarrow> jsnum \<Rightarrow> jsnum" where
  "js_or x y = (if js_truthy x then x else y)"

text \<open>\<open>Math.round\<close> rounds to the nearest integer, a half towards \<open>+\<infinity>\<close>.\<close>

fun Math_round :: "jsnum \<Rightarrow> jsnum" where
  "Math_round (Fin a) = Fin (of_int \<lfloor>a + 1 / 2\<rfloor>)"
| "Math_round x = x"

fun Math_abs :: "jsnum \<Rightarrow> jsnum" where
  "Math_abs (Fin a) = Fin \<bar>a\<bar>"
| "Math_abs NaN = NaN"
| "Math_abs x = PInf"

datatype js_error = TypeError | IndexSizeError | DOMException string

section \<open>util/min, util/max, util/absMax\<close>

text \<open>
  \<open>min\<close> walks over the keys of the array, starting from \<open>Infinity\<close>, and keeps an
  element whenever it is \<open><\<close> the smallest so far.
\<close>

definition utilmin :: "jsnum list \<Rightarrow> jsnum" where
  "utilmin values =
     fold (\<lambda>v smallest. if js_lt v smallest then v else smallest) values PInf"

text \<open>
  Modelled from the spec: \<open>util/max.js\<close>, which \<open>absMax.js\<close> imports as \<open>utilMax\<close>, is not
  among the sources.  \<open>absMax\<close> uses it for the largest element of the array, and it
  is modelled as the mirror image of \<open>min\<close>: it starts from
  \<open>-Infinity\<close> and keeps an element whenever it is \<open>>\<close> the largest so far.
\<close>

definition utilMax :: "jsnum list \<Rightarrow> jsnum" where
  "utilMax values =
     fold (\<lambda>v largest. if js_lt largest v then v else largest) values NInf"

definition absMax :: "jsnum list \<Rightarrow> jsnum" where
  "absMax values =
     (let mx = utilMax values; mn = utilmin values
      in if js_lt mx (js_neg mn) then js_neg mn else mx)"

section \<open>The drawing surface\<close>

text \<open>
  The canvas element and its 2D context belong to the platform.  The element carries the
  attributes the source reads and writes: the bitmap size (\<open>unsigned long\<close>), the layout
  offset (\<open>long\<close>) and the CSS width set through \<open>style\<close> (in pixels).

  The context is modelled by the state its methods act on: the fill style, the current
  path, and the list of paint operations applied to the bitmap so far, which determines
  the pixel contents.  Each method follows the steps the HTML standard gives for it: a
  path or rectangle method called with an infinite or NaN argument returns without
  effect, a rectangle of zero width or height paints nothing, \<open>lineTo\<close> on an empty
  path only starts a subpath, \<open>closePath\<close> and \<open>fill\<close> on an empty path do nothing.
  The transformation matrix is left out: no method modelled below sets it.
\<close>

record canvas_el =
  width :: nat
  height :: nat
  offsetLeft :: int
  style_width :: "jsnum option"

type_synonym color = string

record gradient =
  x0 :: real
  y0 :: real
  x1 :: real
  y1 :: real
  stops :: "(real \<times> color) list"

datatype fill_style = Color color | Gradient gradient

datatype seg =
    MoveTo real real
  | LineTo real real
  | QuadTo real real real real
  | ClosePath

datatype paint =
    FillRect real real real real fill_style
  | ClearRect real real real real
  | FillPath "seg list" fill_style

record context2d =
  canvas :: canvas_el
  fillStyle :: fill_style
  path :: "seg list"
  painted :: "paint list"

definition getContext :: "canvas_el \<Rightarrow> context2d" where
  "getContext element =
     \<lparr>canvas = element, fillStyle = Color ''#000000'', path = [], painted = []\<rparr>"

definition createLinearGradient :: "real \<Rightarrow> real \<Rightarrow> real \<Rightarrow> real \<Rightarrow> gradient" where
  "createLinearGradient a b c d = \<lparr>x0 = a, y0 = b, x1 = c, y1 = d, stops = []\<rparr>"

text \<open>
  \<open>addColorStop\<close> raises for an offset outside \<open>[0, 1]\<close>.  The colours are taken to be
  strings the platform can parse; parsing CSS colours is not modelled.
\<close>

definition addColorStop :: "gradient \<Rightarrow> jsnum \<Rightarrow> color \<Rightarrow> js_error + gradient" where
  "addColorStop g offset c =
     (case offset of
        Fin a \<Rightarrow> if a < 0 \<or> 1 < a then Inl IndexSizeError
                 else Inr (g\<lparr>stops := stops g @ [(a, c)]\<rparr>)
      | _ \<Rightarrow> Inl TypeError)"

definition beginPath :: "context2d \<Rightarrow> context2d" where
  "beginPath c = c\<lparr>path := []\<rparr>"

definition moveTo :: "context2d \<Rightarrow> jsnum \<Rightarrow> jsnum \<Rightarrow> context2d" where
  "moveTo c x y =
     (case (x, y) of
        (Fin a, Fin b) \<Rightarrow> c\<lparr>path := path c @ [MoveTo a b]\<rparr>
      | _ \<Rightarrow> c)"

definition lineTo :: "context2d \<Rightarrow> jsnum \<Rightarrow> jsnum \<Rightarrow> context2d" where
  "lineTo c x y =
     (case (x, y) of
        (Fin a, Fin b) \<Rightarrow>
          c\<lparr>path := path c @ [if path c = [] then MoveTo a b else LineTo a b]\<rparr>
      | _ \<Rightarrow> c)"

definition quadraticCurveTo ::
  "context2d \<Rightarrow> jsnum \<Rightarrow> jsnum \<Rightarrow> jsnum \<Rightarrow> jsnum \<Rightarrow> context2d" where
  "quadraticCurveTo c cpx cpy x y =
     (case (cpx, cpy, x, y) of
        (Fin p, Fin q, Fin a, Fin b) \<Rightarrow>
          c\<lparr>path := (if path c = [] then [MoveTo p q] else path c) @ [QuadTo p q a b]\<rparr>
      | _ \<Rightarrow> c)"

definition closePath :: "context2d \<Rightarrow> context2d" where
  "closePath c = (if path c = [] then c else c\<lparr>path := path c @ [ClosePath]\<rparr>)"

definition fill :: "context2d \<Rightarrow> context2d" where
  "fill c =
     (if path c = [] then c
      else c\<lparr>painted := painted c @ [FillPath (path c) (fillStyle c)]\<rparr>)"

definition fillRect :: "context2d \<Rightarrow> jsnum \<Rightarrow> jsnum \<Rightarrow> jsnum \<Rightarrow> jsnum \<Rightarrow> context2d" where
  "fillRect c x y w h =
     (case (x, y, w, h) of
        (Fin a, Fin b, Fin ww, Fin hh) \<Rightarrow>
          if ww = 0 \<or> hh = 0 then c
          else c\<lparr>painted := painted c @ [FillRect a b ww hh (fillStyle c)]\<rparr>
      | _ \<Rightarrow> c)"

definition clearRect :: "context2d \<Rightarrow> jsnum \<Rightarrow> jsnum \<Rightarrow> jsnum \<Rightarrow> jsnum \<Rightarrow> context2d" where
  "clearRect c x y w h =
     (case (x, y, w, h) of
        (Fin a, Fin b, Fin ww, Fin hh) \<Rightarrow>
          if ww = 0 \<or> hh = 0 then c
          else c\<lparr>painted := painted c @ [ClearRect a b ww hh]\<rparr>
      | _ \<Rightarrow> c)"

section \<open>util/style\<close>

text \<open>
  \<open>style\<close> assigns each property of the map whose current value differs.  The only map
  the entry passes is \<open>{ width: elementWidth + 'px' }\<close>; the width is kept as the number
  of pixels.
\<close>

definition style :: "canvas_el \<Rightarrow> jsnum \<Rightarrow> canvas_el" where
  "style el w = (if style_width el \<noteq> Some w then el\<lparr>style_width := Some w\<rparr> else el)"

section \<open>CanvasEntry\<close>

text \<open>
  The fields of the class.  \<open>hasProgressCanvas\<close> and \<open>halfPixel\<close> are read by the methods
  but never assigned by the class itself (the renderer that owns the entry assigns
  them); on a fresh entry they are \<open>undefined\<close>, which is falsy in a condition and NaN
  in arithmetic.  \<open>id\<close> and \<open>canvasContextAttributes\<close> are left out: no method modelled
  here depends on them.  The field \<open>end\<close> is spelled \<open>end'\<close>.

  \<open>wave\<close> and \<open>waveCtx.canvas\<close> are one object in the source; the model keeps a copy in
  the context and writes through to it where the source writes to the element.
\<close>

record CanvasEntry =
  wave :: "canvas_el option"
  waveCtx :: "context2d option"
  progress :: "canvas_el option"
  progressCtx :: "context2d option"
  start :: jsnum
  end' :: jsnum
  hasProgressCanvas :: bool
  halfPixel :: jsnum

definition constructor :: CanvasEntry where
  "constructor =
     \<lparr>wave = None, waveCtx = None, progress = None, progressCtx = None,
      start = Fin 0, end' = Fin 1, hasProgressCanvas = False, halfPixel = NaN\<rparr>"

definition initWave :: "CanvasEntry \<Rightarrow> canvas_el \<Rightarrow> CanvasEntry" where
  "initWave e element = e\<lparr>wave := Some element, waveCtx := Some (getContext element)\<rparr>"

definition initProgress :: "CanvasEntry \<Rightarrow> canvas_el \<Rightarrow> CanvasEntry" where
  "initProgress e element =
     e\<lparr>progress := Some element, progressCtx := Some (getContext element)\<rparr>"

text \<open>
  \<open>updateDimensions\<close>.  Reading \<open>this.wave.offsetLeft\<close> of a missing element raises.
  Assigning the bitmap width or height of an element resets its context and clears its
  bitmap.
\<close>

definition resize :: "canvas_el \<Rightarrow> nat \<Rightarrow> nat \<Rightarrow> jsnum \<Rightarrow> canvas_el" where
  "resize el w h elementWidth = style (el\<lparr>width := w, height := h\<rparr>) elementWidth"

definition updateDimensions ::
  "CanvasEntry \<Rightarrow> jsnum \<Rightarrow> jsnum \<Rightarrow> nat \<Rightarrow> nat \<Rightarrow> js_error + CanvasEntry" where
  "updateDimensions e elementWidth totalWidth w h =
     (case wave e of
        None \<Rightarrow> Inl TypeError
      | Some el \<Rightarrow>
          let s = js_or (js_div (Fin (real_of_int (offsetLeft el))) totalWidth) (Fin 0);
              e1 = e\<lparr>start := s, end' := js_add s (js_div elementWidth totalWidth)\<rparr>;
              el' = resize el w h elementWidth;
              e2 = e1\<lparr>wave := Some el',
                      waveCtx := map_option (\<lambda>_. getContext el') (waveCtx e1)\<rparr>
          in if hasProgressCanvas e2 then
               (case progress e2 of
                  None \<Rightarrow> Inl TypeError
                | Some pl \<Rightarrow>
                    let pl' = resize pl w h elementWidth
                    in Inr (e2\<lparr>progress := Some pl',
                               progressCtx :=
                                 map_option (\<lambda>_. getContext pl') (progressCtx e2)\<rparr>))
             else Inr e2)"

text \<open>\<open>clearWave\<close> calls \<open>clearRect\<close> on \<open>this.waveCtx\<close> without testing it.\<close>

definition clearAll :: "context2d \<Rightarrow> context2d" where
  "clearAll c =
     clearRect c (Fin 0) (Fin 0)
       (Fin (real (width (canvas c)))) (Fin (real (height (canvas c))))"

definition clearWave :: "CanvasEntry \<Rightarrow> js_error + CanvasEntry" where
  "clearWave e =
     (case waveCtx e of
        None \<Rightarrow> Inl TypeError
      | Some c \<Rightarrow>
          let e1 = e\<lparr>waveCtx := Some (clearAll c)\<rparr>
          in if hasProgressCanvas e1 then
               (case progressCtx e1 of
                  None \<Rightarrow> Inl TypeError
                | Some p \<Rightarrow> Inr (e1\<lparr>progressCtx := Some (clearAll p)\<rparr>))
             else Inr e1)"

text \<open>
  The colour argument: a string, an array of strings, or (for the progress colour,
  documented as nullable) \<open>null\<close>.
\<close>

datatype color_arg = ColorString color | ColorArray "color list" | ColorNull

text \<open>The \<open>forEach\<close> of \<open>getFillStyle\<close>: \<open>index\<close> counts up, \<open>len\<close> is \<open>color.length\<close>.\<close>

fun addStops :: "nat \<Rightarrow> nat \<Rightarrow> color list \<Rightarrow> gradient \<Rightarrow> js_error + gradient" where
  "addStops index len [] g = Inr g"
| "addStops index len (v # rest) g =
     (case addColorStop g (js_div (Fin (real index)) (Fin (real len))) v of
        Inl err \<Rightarrow> Inl err
      | Inr g' \<Rightarrow> addStops (Suc index) len rest g')"

definition getFillStyle :: "context2d option \<Rightarrow> color_arg \<Rightarrow> js_error + fill_style" where
  "getFillStyle ctx color =
     (case color of
        ColorString s \<Rightarrow> Inr (Color s)
      | _ \<Rightarrow>
        (case ctx of
           None \<Rightarrow> Inl TypeError
         | Some c \<Rightarrow>
             let waveGradient = createLinearGradient 0 0 0 (real (height (canvas c)))
             in (case color of
                   ColorArray cs \<Rightarrow>
                     (case addStops 0 (length cs) cs waveGradient of
                        Inl err \<Rightarrow> Inl err
                      | Inr g \<Rightarrow> Inr (Gradient g))
                 | _ \<Rightarrow> Inl TypeError)))"

text \<open>
  \<open>setFillStyles\<close> assigns to \<open>this.waveCtx.fillStyle\<close> without testing the context;
  with a missing context the statement raises whatever \<open>getFillStyle\<close> returns.
\<close>

definition setFillStyles ::
  "CanvasEntry \<Rightarrow> color_arg \<Rightarrow> color_arg \<Rightarrow> js_error + CanvasEntry" where
  "setFillStyles e waveColor progressColor =
     (case waveCtx e of
        None \<Rightarrow> Inl TypeError
      | Some c \<Rightarrow>
          (case getFillStyle (Some c) waveColor of
             Inl err \<Rightarrow> Inl err
           | Inr st \<Rightarrow>
               let e1 = e\<lparr>waveCtx := Some (c\<lparr>fillStyle := st\<rparr>)\<rparr>
               in if hasProgressCanvas e1 then
                    (case progressCtx e1 of
                       None \<Rightarrow> Inl TypeError
                     | Some p \<Rightarrow>
                         (case getFillStyle (Some p) progressColor of
                            Inl err \<Rightarrow> Inl err
                          | Inr pst \<Rightarrow>
                              Inr (e1\<lparr>progressCtx := Some (p\<lparr>fillStyle := pst\<rparr>)\<rparr>)))
                  else Inr e1))"

subsection \<open>Bars\<close>

text \<open>
  In \<open>drawRoundedRect\<close> the parameters \<open>height\<close> and \<open>y\<close> are reassigned when the height
  is negative; \<open>h'\<close> and \<open>y'\<close> are their values after that step.
\<close>

definition drawRoundedRect ::
  "context2d \<Rightarrow> jsnum \<Rightarrow> jsnum \<Rightarrow> jsnum \<Rightarrow> jsnum \<Rightarrow> jsnum \<Rightarrow> context2d" where
  "drawRoundedRect ctx x y w h radius =
     (if h = Fin 0 then ctx
      else
        let h' = (if js_lt h (Fin 0) then js_mul h (Fin (- 1)) else h);
            y' = (if js_lt h (Fin 0) then js_sub y h' else y);
            c1 = beginPath ctx;
            c2 = moveTo c1 (js_add x radius) y';
            c3 = lineTo c2 (js_sub (js_add x w) radius) y';
            c4 = quadraticCurveTo c3 (js_add x w) y' (js_add x w) (js_add y' radius);
            c5 = lineTo c4 (js_add x w) (js_sub (js_add y' h') radius);
            c6 = quadraticCurveTo c5 (js_add x w) (js_add y' h')
                   (js_sub (js_add x w) radius) (js_add y' h');
            c7 = lineTo c6 (js_add x radius) (js_add y' h');
            c8 = quadraticCurveTo c7 x (js_add y' h') x (js_sub (js_add y' h') radius);
            c9 = lineTo c8 x (js_add y' radius);
            c10 = quadraticCurveTo c9 x y' (js_add x radius) y'
        in fill (closePath c10))"

definition fillRectToContext ::
  "context2d option \<Rightarrow> jsnum \<Rightarrow> jsnum \<Rightarrow> jsnum \<Rightarrow> jsnum \<Rightarrow> jsnum \<Rightarrow> context2d option" where
  "fillRectToContext ctx x y w h radius =
     (case ctx of
        None \<Rightarrow> None
      | Some c \<Rightarrow>
          if js_truthy radius then Some (drawRoundedRect c x y w h radius)
          else Some (fillRect c x y w h))"

definition fillRects ::
  "CanvasEntry \<Rightarrow> jsnum \<Rightarrow> jsnum \<Rightarrow> jsnum \<Rightarrow> jsnum \<Rightarrow> jsnum \<Rightarrow> CanvasEntry" where
  "fillRects e x y w h radius =
     (let e1 = e\<lparr>waveCtx := fillRectToContext (waveCtx e) x y w h radius\<rparr>
      in if hasProgressCanvas e1
         then e1\<lparr>progressCtx := fillRectToContext (progressCtx e1) x y w h radius\<rparr>
         else e1)"

subsection \<open>The waveform line\<close>

text \<open>
  The locals of \<open>drawLineToContext\<close>: \<open>length\<close>, \<open>first\<close> (also \<open>canvasStart\<close>), \<open>last\<close>
  (also \<open>canvasEnd\<close>) and \<open>scale\<close>.
\<close>

definition dl_length :: "jsnum list \<Rightarrow> jsnum" where
  "dl_length peaks = js_div (Fin (real (length peaks))) (Fin 2)"

definition dl_first :: "CanvasEntry \<Rightarrow> jsnum list \<Rightarrow> jsnum" where
  "dl_first e peaks = Math_round (js_mul (dl_length peaks) (start e))"

definition dl_last :: "CanvasEntry \<Rightarrow> jsnum list \<Rightarrow> jsnum" where
  "dl_last e peaks = js_add (Math_round (js_mul (dl_length peaks) (end' e))) (Fin 1)"

definition dl_scale :: "canvas_el \<Rightarrow> CanvasEntry \<Rightarrow> jsnum list \<Rightarrow> jsnum" where
  "dl_scale el e peaks =
     js_div (Fin (real (width el)))
       (js_sub (js_sub (dl_last e peaks) (dl_first e peaks)) (Fin 1))"

text \<open>
  \<open>peaks[k] || 0\<close>: an index that is not a natural number below the length reads
  \<open>undefined\<close>, and \<open>undefined\<close>, NaN and \<open>0\<close> all give \<open>0\<close>.
\<close>

definition peak_at :: "jsnum list \<Rightarrow> jsnum \<Rightarrow> jsnum" where
  "peak_at peaks k =
     (case k of
        Fin a \<Rightarrow>
          if 0 \<le> a \<and> real_of_int \<lfloor>a\<rfloor> = a \<and> nat \<lfloor>a\<rfloor> < length peaks
          then js_or (peaks ! nat \<lfloor>a\<rfloor>) (Fin 0)
          else Fin 0
      | _ \<Rightarrow> Fin 0)"

text \<open>
  The two loops, \<open>for (i = canvasStart; i < canvasEnd; i++)\<close> and
  \<open>for (j; j >= canvasStart; j--)\<close>.  Their counters are numbers, so a loop need not
  end (an infinite bound is never reached); a loop that does not return is \<open>None\<close>.
\<close>

partial_function (option) loop_up ::
  "(jsnum \<Rightarrow> 's \<Rightarrow> 's) \<Rightarrow> jsnum \<Rightarrow> jsnum \<Rightarrow> 's \<Rightarrow> 's option" where
  "loop_up body canvasEnd i s =
     (if js_lt i canvasEnd then loop_up body canvasEnd (js_add i (Fin 1)) (body i s)
      else Some s)"

partial_function (option) loop_down ::
  "(jsnum \<Rightarrow> 's \<Rightarrow> 's) \<Rightarrow> jsnum \<Rightarrow> jsnum \<Rightarrow> 's \<Rightarrow> 's option" where
  "loop_down body canvasStart j s =
     (if js_ge j canvasStart then loop_down body canvasStart (js_sub j (Fin 1)) (body j s)
      else Some s)"

text \<open>
  \<open>drawLineToContext\<close> returns at once without a context.  Otherwise it reads
  \<open>this.wave.width\<close> (raising when the element is missing) before the first call on the
  context.  The parameters \<open>start\<close> and \<open>end\<close> are not used by the source: the window comes
  from the fields \<open>this.start\<close> and \<open>this.end\<close>.
\<close>

definition drawLineToContext ::
  "CanvasEntry \<Rightarrow> context2d option \<Rightarrow> jsnum list \<Rightarrow> jsnum \<Rightarrow> jsnum \<Rightarrow> jsnum \<Rightarrow>
     jsnum \<Rightarrow> jsnum \<Rightarrow> (js_error + context2d option) option" where
  "drawLineToContext e ctx peaks absmax halfH offsetY start_arg end_arg =
     (case ctx of
        None \<Rightarrow> Some (Inr None)
      | Some c \<Rightarrow>
        (case wave e of
           None \<Rightarrow> Some (Inl TypeError)
         | Some el \<Rightarrow>
             let first = dl_first e peaks;
                 last = dl_last e peaks;
                 canvasStart = first;
                 canvasEnd = last;
                 scale = dl_scale el e peaks;
                 halfOffset = js_add halfH offsetY;
                 absmaxHalf = js_div absmax halfH;
                 xstart = js_mul (js_sub canvasStart first) scale;
                 c1 = beginPath c;
                 c2 = moveTo c1 xstart halfOffset;
                 c3 = lineTo c2 xstart
                        (js_sub halfOffset
                           (Math_round
                              (js_div (peak_at peaks (js_mul (Fin 2) canvasStart)) absmaxHalf)));
                 upper = (\<lambda>i cc.
                    let peak = peak_at peaks (js_mul (Fin 2) i);
                        h = Math_round (js_div peak absmaxHalf)
                    in lineTo cc (js_add (js_mul (js_sub i first) scale) (halfPixel e))
                         (js_sub halfOffset h));
                 lower = (\<lambda>j cc.
                    let peak = peak_at peaks (js_add (js_mul (Fin 2) j) (Fin 1));
                        h = Math_round (js_div peak absmaxHalf)
                    in lineTo cc (js_add (js_mul (js_sub j first) scale) (halfPixel e))
                         (js_sub halfOffset h))
             in (case loop_up upper canvasEnd canvasStart c3 of
                   None \<Rightarrow> None
                 | Some c4 \<Rightarrow>
                   (case loop_down lower canvasStart (js_sub canvasEnd (Fin 1)) c4 of
                      None \<Rightarrow> None
                    | Some c5 \<Rightarrow>
                        let c6 = lineTo c5 xstart
                              (js_sub halfOffset
                                 (Math_round
                                    (js_div
                                       (peak_at peaks
                                          (js_add (js_mul (Fin 2) canvasStart) (Fin 1)))
                                       absmaxHalf)))
                        in Some (Inr (Some (fill (closePath c6))))))))"

definition drawLines ::
  "CanvasEntry \<Rightarrow> jsnum list \<Rightarrow> jsnum \<Rightarrow> jsnum \<Rightarrow> jsnum \<Rightarrow> jsnum \<Rightarrow> jsnum \<Rightarrow>
     (js_error + CanvasEntry) option" where
  "drawLines e peaks absmax halfH offsetY start_arg end_arg =
     (case drawLineToContext e (waveCtx e) peaks absmax halfH offsetY start_arg end_arg of
        None \<Rightarrow> None
      | Some (Inl err) \<Rightarrow> Some (Inl err)
      | Some (Inr c') \<Rightarrow>
          let e1 = e\<lparr>waveCtx := c'\<rparr>
          in if hasProgressCanvas e1 then
               (case drawLineToContext e1 (progressCtx e1) peaks absmax halfH offsetY
                       start_arg end_arg of
                  None \<Rightarrow> None
                | Some (Inl err) \<Rightarrow> Some (Inl err)
                | Some (Inr p') \<Rightarrow> Some (Inr (e1\<lparr>progressCtx := p'\<rparr>)))
             else Some (Inr e1))"

subsection \<open>Export\<close>

text \<open>
  \<open>toDataURL\<close> and \<open>toBlob\<close> belong to the platform and are parameters.  Each either
  raises at the call (\<open>Inl\<close>) or succeeds (\<open>Inr\<close>): \<open>toDataURL\<close> with the string,
  \<open>toBlob\<close> by later handing its callback a blob, or \<open>null\<close> (\<open>None\<close>) when the
  platform could not create one.

  A promise is represented by how it settles.  An executor that raises rejects its
  promise; the executor of \<open>getImage\<close> passes \<open>resolve\<close> to \<open>toBlob\<close> as the callback and
  never takes a \<open>reject\<close> function.
\<close>

type_synonym blob = "nat list"

datatype settlement = Fulfilled "blob option" | Rejected js_error

datatype image_result = DataURL string | Promise settlement | Undefined

definition getImage ::
  "(canvas_el \<Rightarrow> string \<Rightarrow> jsnum \<Rightarrow> js_error + string) \<Rightarrow>
   (canvas_el \<Rightarrow> string \<Rightarrow> jsnum \<Rightarrow> js_error + blob option) \<Rightarrow>
   CanvasEntry \<Rightarrow> string \<Rightarrow> jsnum \<Rightarrow> string \<Rightarrow> js_error + image_result" where
  "getImage toDataURL toBlob e format quality type =
     (if type = ''blob'' then
        Inr (Promise
          (case wave e of
             None \<Rightarrow> Rejected TypeError
           | Some el \<Rightarrow>
               (case toBlob el format quality of
                  Inl err \<Rightarrow> Rejected err
                | Inr b \<Rightarrow> Fulfilled b)))
      else if type = ''dataURL'' then
        (case wave e of
           None \<Rightarrow> Inl TypeError
         | Some el \<Rightarrow>
             (case toDataURL el format quality of
                Inl err \<Rightarrow> Inl err
              | Inr url \<Rightarrow> Inr (DataURL url)))
      else Inr Undefined)"

section \<open>The hull of a tile, written out\<close>






section \<open>Example data\<close>

text \<open>
  A 100 by 100 surface at the left edge, a tile attached to it (a fresh entry spans the
  whole series: \<open>start = 0\<close>, \<open>end = 1\<close>) with the half pixel its renderer assigns, a
  surface of size zero laid out 5 pixels from the left, and a series of two sample pairs.
\<close>

definition example_canvas :: canvas_el where
  "example_canvas = \<lparr>width = 100, height = 100, offsetLeft = 0, style_width = None\<rparr>"

definition offset_canvas :: canvas_el where
  "offset_canvas = \<lparr>width = 0, height = 0, offsetLeft = 5, style_width = None\<rparr>"

definition example_tile :: CanvasEntry where
  "example_tile = (initWave constructor example_canvas)\<lparr>halfPixel := Fin (1 / 2)\<rparr>"

definition example_series :: "jsnum list" where
  "example_series = [Fin 1, Fin (- 1), Fin (1 / 2), Fin (- (1 / 2))]"

section \<open>Properties of util/absMax\<close>

text \<open>On numbers other than NaN, \<open><=\<close> is a linear order.\<close>

lemma js_le_trans: "js_le a b \<Longrightarrow> js_le b c \<Longrightarrow> js_le a c"
  by (cases a; cases b; cases c) (simp_all add: js_le_def)

lemma js_le_refl: "a \<noteq> NaN \<Longrightarrow> js_le a a"
  by (cases a) (simp_all add: js_le_def)

lemma js_lt_imp_le: "js_lt a b \<Longrightarrow> js_le a b"
  by (cases a; cases b) (simp_all add: js_le_def)

lemma fold_min_least:
  assumes "NaN \<notin> set vs" and "s \<noteq> NaN"
  shows "(fold (\<lambda>v smallest. if js_lt v smallest then v else smallest) vs s = s \<or>
          fold (\<lambda>v smallest. if js_lt v smallest then v else smallest) vs s \<in> set vs) \<and>
         js_le (fold (\<lambda>v smallest. if js_lt v smallest then v else smallest) vs s) s \<and>
         (\<forall>v\<in>set vs. js_le (fold (\<lambda>v smallest. if js_lt v smallest then v else smallest) vs s) v)"
  using assms
proof (induction vs arbitrary: s)
  case Nil
  then show ?case by (simp add: js_le_refl)
next
  case (Cons v vs)
  let ?f = "\<lambda>v smallest. if js_lt v smallest then v else smallest"
  let ?s' = "if js_lt v s then v else s"
  from Cons.prems have nn: "v \<noteq> NaN" "NaN \<notin> set vs" "?s' \<noteq> NaN" by auto
  from Cons.IH[OF nn(2,3)] have ih:
    "fold ?f vs ?s' = ?s' \<or> fold ?f vs ?s' \<in> set vs"
    "js_le (fold ?f vs ?s') ?s'"
    "\<forall>v\<in>set vs. js_le (fold ?f vs ?s') v"
    by blast+
  have s's: "js_le ?s' s" and s'v: "js_le ?s' v"
    using nn(1) Cons.prems(2) by (cases v; cases s; simp add: js_le_def)+
  show ?case
    using ih js_le_trans[OF ih(2) s's] js_le_trans[OF ih(2) s'v]
    by (auto split: if_splits)
qed

lemma fold_max_greatest:
  assumes "NaN \<notin> set vs" and "s \<noteq> NaN"
  shows "(fold (\<lambda>v largest. if js_lt largest v then v else largest) vs s = s \<or>
          fold (\<lambda>v largest. if js_lt largest v then v else largest) vs s \<in> set vs) \<and>
         js_le s (fold (\<lambda>v largest. if js_lt largest v then v else largest) vs s) \<and>
         (\<forall>v\<in>set vs. js_le v (fold (\<lambda>v largest. if js_lt largest v then v else largest) vs s))"
  using assms
proof (induction vs arbitrary: s)
  case Nil
  then show ?case by (simp add: js_le_refl)
next
  case (Cons v vs)
  let ?f = "\<lambda>v largest. if js_lt largest v then v else largest"
  let ?s' = "if js_lt s v then v else s"
  from Cons.prems have nn: "v \<noteq> NaN" "NaN \<notin> set vs" "?s' \<noteq> NaN" by auto
  from Cons.IH[OF nn(2,3)] have ih:
    "fold ?f vs ?s' = ?s' \<or> fold ?f vs ?s' \<in> set vs"
    "js_le ?s' (fold ?f vs ?s')"
    "\<forall>v\<in>set vs. js_le v (fold ?f vs ?s')"
    by blast+
  have s's: "js_le s ?s'" and s'v: "js_le v ?s'"
    using nn(1) Cons.prems(2) by (cases v; cases s; simp add: js_le_def)+
  show ?case
    using ih js_le_trans[OF s's ih(2)] js_le_trans[OF s'v ih(2)]
    by (auto split: if_splits)
qed

lemma utilmin_least:
  assumes "values \<noteq> []" and "NaN \<notin> set values"
  shows "utilmin values \<in> set values" and "\<forall>v\<in>set values. js_le (utilmin values) v"
proof -
  have a: "utilmin values = PInf \<or> utilmin values \<in> set values"
    and b: "\<forall>v\<in>set values. js_le (utilmin values) v"
    using fold_min_least[OF assms(2), of PInf] by (simp_all add: utilmin_def)
  show "\<forall>v\<in>set values. js_le (utilmin values) v" by (rule b)
  show "utilmin values \<in> set values"
  proof (cases "utilmin values = PInf")
    case True
    from assms(1) obtain v where v: "v \<in> set values" by (cases "values") auto
    with b True have "js_le PInf v" by auto
    then have "v = PInf" by (cases v) (simp_all add: js_le_def)
    with v True show ?thesis by simp
  next
    case False
    with a show ?thesis by simp
  qed
qed

lemma utilMax_greatest:
  assumes "values \<noteq> []" and "NaN \<notin> set values"
  shows "utilMax values \<in> set values" and "\<forall>v\<in>set values. js_le v (utilMax values)"
proof -
  have a: "utilMax values = NInf \<or> utilMax values \<in> set values"
    and b: "\<forall>v\<in>set values. js_le v (utilMax values)"
    using fold_max_greatest[OF assms(2), of NInf] by (simp_all add: utilMax_def)
  show "\<forall>v\<in>set values. js_le v (utilMax values)" by (rule b)
  show "utilMax values \<in> set values"
  proof (cases "utilMax values = NInf")
    case True
    from assms(1) obtain v where v: "v \<in> set values" by (cases "values") auto
    with b True have "js_le v NInf" by auto
    then have "v = NInf" by (cases v) (simp_all add: js_le_def)
    with v True show ?thesis by simp
  next
    case False
    with a show ?thesis by simp
  qed
qed

lemma abs_below_neg_min:
  "js_le mn v \<Longrightarrow> js_le v mx \<Longrightarrow> js_lt mx (js_neg mn) \<Longrightarrow> js_le (Math_abs v) (js_neg mn)"
  by (cases mn; cases v; cases mx) (simp_all add: js_le_def)

lemma abs_below_max:
  "js_le mn v \<Longrightarrow> js_le v mx \<Longrightarrow> \<not> js_lt mx (js_neg mn) \<Longrightarrow> js_le (Math_abs v) mx"
  by (cases mn; cases v; cases mx) (simp_all add: js_le_def)

lemma neg_min_is_abs:
  "js_le mn mx \<Longrightarrow> js_lt mx (js_neg mn) \<Longrightarrow> js_neg mn = Math_abs mn"
  by (cases mn; cases mx) (simp_all add: js_le_def)

lemma max_is_abs:
  "js_le mn mx \<Longrightarrow> \<not> js_lt mx (js_neg mn) \<Longrightarrow> mx = Math_abs mx"
  by (cases mn; cases mx) (simp_all add: js_le_def)

text \<open>
  C10: for a non-empty array of numbers (no element NaN; infinities allowed), \<open>absMax\<close>
  returns the maximum of the absolute values of the elements: the result is the absolute
  value of some element and no element's absolute value exceeds it.  It is computed as
  the larger of \<open>max(values)\<close> and \<open>-min(values)\<close>.
\<close>

theorem absMax_largest_absolute_value:
  assumes "values \<noteq> []" and "NaN \<notin> set values"
  shows "absMax values \<in> Math_abs ` set values \<and>
         (\<forall>v\<in>set values. js_le (Math_abs v) (absMax values)) \<and>
         absMax values =
           (if js_lt (utilMax values) (js_neg (utilmin values))
            then js_neg (utilmin values) else utilMax values)"
proof -
  let ?mx = "utilMax values" and ?mn = "utilmin values"
  note mn = utilmin_least[OF assms] and mx = utilMax_greatest[OF assms]
  have le: "js_le ?mn ?mx" using mn(2) mx(1) by blast
  have bounds: "\<And>v. v \<in> set values \<Longrightarrow> js_le ?mn v \<and> js_le v ?mx"
    using mn(2) mx(2) by blast
  show ?thesis
  proof (cases "js_lt ?mx (js_neg ?mn)")
    case True
    then have r: "absMax values = js_neg ?mn" by (simp add: absMax_def)
    have "js_neg ?mn \<in> Math_abs ` set values"
      using neg_min_is_abs[OF le True] mn(1) by auto
    moreover have "\<forall>v\<in>set values. js_le (Math_abs v) (js_neg ?mn)"
      using bounds abs_below_neg_min True by blast
    ultimately show ?thesis using r True by simp
  next
    case False
    then have r: "absMax values = ?mx" by (simp add: absMax_def)
    have "?mx \<in> Math_abs ` set values"
      using max_is_abs[OF le False] mx(1) by (metis imageI)
    moreover have "\<forall>v\<in>set values. js_le (Math_abs v) ?mx"
      using bounds abs_below_max False by blast
    ultimately show ?thesis using r False by simp
  qed
qed

theorem absMax_largest_absolute_value_witness:
  "[Fin (- 3), Fin 2, Fin 1] \<noteq> [] \<and> NaN \<notin> set [Fin (- 3), Fin 2, Fin 1] \<and>
   absMax [Fin (- 3), Fin 2, Fin 1] = Fin 3 \<and>
   absMax [Fin (- 3), Fin 2, Fin 1] \<in> Math_abs ` set [Fin (- 3), Fin 2, Fin 1] \<and>
   js_le (Math_abs (Fin (- 3))) (absMax [Fin (- 3), Fin 2, Fin 1]) \<and>
   js_le (Math_abs (Fin 2)) (absMax [Fin (- 3), Fin 2, Fin 1])"
  using absMax_largest_absolute_value [of "[Fin (- 3), Fin 2, Fin 1]"]
  by (simp add: absMax_def utilMax_def utilmin_def)

section \<open>Fill styles\<close>

lemma addStops_spaced:
  "index + length cs \<le> len \<Longrightarrow>
   addStops index len cs g =
     Inr (g\<lparr>stops := stops g @
            map (\<lambda>j. (real (index + j) / real len, cs ! j)) [0..<length cs]\<rparr>)"
proof (induction cs arbitrary: index g)
  case Nil
  then show ?case by simp
next
  case (Cons v rest)
  from Cons.prems have lt: "index < len" and next_ok: "Suc index + length rest \<le> len"
    by simp_all
  from lt have range: "\<not> real index / real len < 0" "\<not> 1 < real index / real len"
    by (simp_all add: not_less)
  from lt range have stop: "addColorStop g (js_div (Fin (real index)) (Fin (real len))) v =
      Inr (g\<lparr>stops := stops g @ [(real index / real len, v)]\<rparr>)"
    by (simp add: addColorStop_def)
  have shift: "map (\<lambda>j. (real (index + j) / real len, (v # rest) ! j)) [0..<length (v # rest)] =
      (real index / real len, v) #
      map (\<lambda>j. (real (Suc index + j) / real len, rest ! j)) [0..<length rest]"
    by (simp add: map_upt_Suc add.commute add.left_commute del: upt_Suc)
  show ?case
    unfolding shift using Cons.IH[OF next_ok] stop by simp
qed

text \<open>
  C1: for every colour argument that is a list of \<open>k\<close> colours, \<open>getFillStyle\<close> returns a
  linear gradient from \<open>(0, 0)\<close> to \<open>(0, ctx.canvas.height)\<close> with exactly \<open>k\<close> stops, stop
  \<open>i\<close> carrying colour \<open>i\<close> at offset \<open>i / k\<close>, so every offset is below 1; no call of
  \<open>addColorStop\<close> raises.  For a string it returns the string unchanged, whatever the
  context.
\<close>

theorem getFillStyle_gradient_stops:
  "(\<exists>g. getFillStyle (Some ctx) (ColorArray cs) = Inr (Gradient g) \<and>
        x0 g = 0 \<and> y0 g = 0 \<and> x1 g = 0 \<and> y1 g = real (height (canvas ctx)) \<and>
        length (stops g) = length cs \<and>
        (\<forall>i<length cs. stops g ! i = (real i / real (length cs), cs ! i) \<and>
                        fst (stops g ! i) < 1)) \<and>
   getFillStyle ctx' (ColorString s) = Inr (Color s)"
proof -
  have "addStops 0 (length cs) cs (createLinearGradient 0 0 0 (real (height (canvas ctx)))) =
      Inr ((createLinearGradient 0 0 0 (real (height (canvas ctx))))
            \<lparr>stops := map (\<lambda>j. (real j / real (length cs), cs ! j)) [0..<length cs]\<rparr>)"
    using addStops_spaced[of 0 cs "length cs"] by (simp add: createLinearGradient_def)
  moreover have "\<forall>i<length cs. real i / real (length cs) < 1"
    by (simp add: divide_less_eq)
  ultimately show ?thesis
    by (simp add: getFillStyle_def createLinearGradient_def)
qed

theorem getFillStyle_gradient_stops_witness:
  "getFillStyle
     (Some (getContext example_canvas))
     (ColorArray [''red'', ''green'', ''blue'']) =
   Inr (Gradient \<lparr>x0 = 0, y0 = 0, x1 = 0, y1 = 100,
          stops = [(0, ''red''), (1 / 3, ''green''), (2 / 3, ''blue'')]\<rparr>) \<and>
   getFillStyle None (ColorString ''red'') = Inr (Color ''red'')"
  using getFillStyle_gradient_stops
    [of "getContext example_canvas"
        "[''red'', ''green'', ''blue'']" None "''red''"]
  by (simp add: getFillStyle_def createLinearGradient_def addColorStop_def getContext_def
        example_canvas_def)

section \<open>Unattached surfaces\<close>

text \<open>
  C2: on a tile whose contexts are null, \<open>clearWave\<close> and \<open>setFillStyles\<close> raise a
  TypeError (they use \<open>this.waveCtx\<close> without a test), while \<open>fillRects\<close> and \<open>drawLines\<close>,
  whose helpers test the context first, return with the tile unchanged.
\<close>

theorem unattached_clearWave_setFillStyles_raise:
  "clearWave (e\<lparr>waveCtx := None\<rparr>) = Inl TypeError \<and>
   setFillStyles (e\<lparr>waveCtx := None\<rparr>) waveColor progressColor = Inl TypeError \<and>
   clearWave constructor = Inl TypeError \<and>
   setFillStyles constructor waveColor progressColor = Inl TypeError \<and>
   fillRects (e\<lparr>waveCtx := None, progressCtx := None\<rparr>) x y w h radius =
     e\<lparr>waveCtx := None, progressCtx := None\<rparr> \<and>
   drawLines (e\<lparr>waveCtx := None, progressCtx := None\<rparr>) peaks absmax halfH offsetY a b =
     Some (Inr (e\<lparr>waveCtx := None, progressCtx := None\<rparr>)) \<and>
   fillRects constructor x y w h radius = constructor \<and>
   drawLines constructor peaks absmax halfH offsetY a b = Some (Inr constructor)"
  by (simp add: clearWave_def setFillStyles_def fillRects_def fillRectToContext_def
        drawLines_def drawLineToContext_def constructor_def Let_def)

section \<open>Bars\<close>

text \<open>The path methods at finite and at NaN coordinates.\<close>

lemma moveTo_Fin: "moveTo c (Fin a) (Fin b) = c\<lparr>path := path c @ [MoveTo a b]\<rparr>"
  by (simp add: moveTo_def)

lemma lineTo_Fin:
  "lineTo c (Fin a) (Fin b) =
     c\<lparr>path := path c @ [if path c = [] then MoveTo a b else LineTo a b]\<rparr>"
  by (simp add: lineTo_def)

lemma quadraticCurveTo_Fin:
  "quadraticCurveTo c (Fin p) (Fin q) (Fin a) (Fin b) =
     c\<lparr>path := (if path c = [] then [MoveTo p q] else path c) @ [QuadTo p q a b]\<rparr>"
  by (simp add: quadraticCurveTo_def)

lemma moveTo_NaN: "moveTo c NaN y = c"
  by (simp add: moveTo_def)

lemma lineTo_NaN: "lineTo c NaN y = c"
  by (simp add: lineTo_def)

lemma fillRectToContext_zero_height: "fillRectToContext ctx x y w (Fin 0) radius = ctx"
  by (cases ctx; cases x; cases y; cases w)
     (simp_all add: fillRectToContext_def drawRoundedRect_def fillRect_def)

text \<open>
  C8: \<open>fillRects\<close> with height exactly 0 returns the tile as it was, for every \<open>x\<close>, \<open>y\<close>,
  width and radius and whatever surfaces are attached: nothing is added to the paint
  operations of either surface (the pixels stay as they were), the paths and fill styles
  are untouched, and no error is raised.  With a truthy radius \<open>drawRoundedRect\<close> returns
  at once; otherwise the platform's \<open>fillRect\<close> is called with height 0, which paints
  nothing.
\<close>

theorem fillRects_zero_height_noop: "fillRects e x y w (Fin 0) radius = e"
  by (simp add: fillRects_def fillRectToContext_zero_height Let_def)

lemma negative_height_flip:
  assumes "js_lt h (Fin 0)"
  shows "js_mul h (Fin (- 1)) = Math_abs h"
    and "js_sub y (Math_abs h) = js_add y h"
    and "Math_abs h \<noteq> Fin 0" and "\<not> js_lt (Math_abs h) (Fin 0)" and "h \<noteq> Fin 0"
  using assms by (cases h; simp add: js_sub_def)+

lemma drawRoundedRect_flip:
  assumes "js_lt h (Fin 0)"
  shows "drawRoundedRect ctx x y w h radius =
         drawRoundedRect ctx x (js_add y h) w (Math_abs h) radius"
  using assms negative_height_flip[OF assms]
  by (simp add: drawRoundedRect_def)

lemma fillRectToContext_flip:
  assumes "js_lt h (Fin 0)" and "js_truthy radius"
  shows "fillRectToContext cx x y w h radius =
         fillRectToContext cx x (js_add y h) w (Math_abs h) radius"
  using assms(2) drawRoundedRect_flip[OF assms(1)]
  by (cases cx) (simp_all add: fillRectToContext_def)

text \<open>
  C7: for a negative height \<open>h\<close> (finite or \<open>-Infinity\<close>), \<open>drawRoundedRect\<close> with height
  \<open>h\<close> and origin \<open>y\<close> leaves the context exactly as \<open>drawRoundedRect\<close> with height \<open>|h|\<close>
  and origin \<open>y + h\<close> does: the same path is traced and filled.  With a truthy radius the
  same holds of \<open>fillRects\<close>, on both surfaces.
\<close>

theorem drawBar_negative_height:
  assumes "js_lt h (Fin 0)"
  shows "drawRoundedRect ctx x y w h radius =
           drawRoundedRect ctx x (js_add y h) w (Math_abs h) radius \<and>
         (js_truthy radius \<longrightarrow>
            fillRects e x y w h radius = fillRects e x (js_add y h) w (Math_abs h) radius)"
proof (intro conjI impI)
  show "drawRoundedRect ctx x y w h radius =
        drawRoundedRect ctx x (js_add y h) w (Math_abs h) radius"
    by (rule drawRoundedRect_flip[OF assms])
next
  assume r: "js_truthy radius"
  show "fillRects e x y w h radius = fillRects e x (js_add y h) w (Math_abs h) radius"
    unfolding fillRects_def fillRectToContext_flip[OF assms r, of _ x y w] ..
qed

theorem drawBar_negative_height_witness:
  "js_lt (Fin (- 10)) (Fin 0) \<and> js_truthy (Fin 2) \<and>
   fillRects example_tile (Fin 5) (Fin 30) (Fin 4) (Fin (- 10)) (Fin 2) =
   fillRects example_tile (Fin 5) (Fin 20) (Fin 4) (Fin 10) (Fin 2) \<and>
   map_option painted
     (waveCtx (fillRects example_tile (Fin 5) (Fin 30) (Fin 4) (Fin (- 10)) (Fin 2))) =
     Some [FillPath [MoveTo 7 20, LineTo 7 20, QuadTo 9 20 9 22, LineTo 9 28, QuadTo 9 30 7 30,
                LineTo 7 30, QuadTo 5 30 5 28, LineTo 5 22, QuadTo 5 20 7 20, ClosePath]
        (Color ''#000000'')]"
  using drawBar_negative_height
    [of "Fin (- 10)" "getContext example_canvas" "Fin 5" "Fin 30" "Fin 4" "Fin 2" example_tile]
  by (simp add: js_truthy_def fillRects_def fillRectToContext_def drawRoundedRect_def
        example_tile_def initWave_def constructor_def getContext_def beginPath_def
        moveTo_Fin lineTo_Fin quadraticCurveTo_Fin closePath_def fill_def js_sub_def)

section \<open>Dimensions\<close>

text \<open>The second loop of \<open>drawLineToContext\<close> never returns when both its bounds are \<open>Infinity\<close>.\<close>

lemma loop_down_infinite_bounds: "loop_down body PInf PInf s = None"
proof -
  have "\<not> (cs = PInf \<and> j = PInf)" if "loop_down body cs j s = Some y" for cs j y
  proof (rule loop_down.raw_induct
      [where P = "\<lambda>body cs j s y. \<not> (cs = PInf \<and> j = PInf)", OF _ that])
    fix loop :: "(jsnum \<Rightarrow> 'a \<Rightarrow> 'a) \<Rightarrow> jsnum \<Rightarrow> jsnum \<Rightarrow> 'a \<Rightarrow> 'a option"
      and body' cs' j' s' y'
    assume ih: "\<And>b c k t z. loop b c k t = Some z \<Longrightarrow> \<not> (c = PInf \<and> k = PInf)"
      and step: "(if js_ge j' cs' then loop body' cs' (js_sub j' (Fin 1)) (body' j' s')
                  else Some s') = Some y'"
    show "\<not> (cs' = PInf \<and> j' = PInf)"
    proof
      assume inf: "cs' = PInf \<and> j' = PInf"
      with step have "loop body' PInf PInf (body' PInf s') = Some y'"
        by (simp add: js_ge_def js_le_def js_sub_def)
      from ih[OF this] show False by simp
    qed
  qed
  then show ?thesis by (cases "loop_down body PInf PInf s") auto
qed

text \<open>
  C9: for a total width of 0 the \<open>|| 0\<close> of \<open>updateDimensions\<close> replaces only the quotient
  \<open>0 / 0\<close>, which is NaN: with a left offset of 0 \<open>start\<close> is 0.  With a left offset of 5
  the quotient \<open>5 / 0\<close> is \<open>Infinity\<close>, which is truthy, so \<open>start\<close> (and with it \<open>end\<close>)
  becomes \<open>Infinity\<close>, outside the documented range of 0 to 1, and \<open>drawLines\<close> on that
  tile never returns.
\<close>

theorem updateDimensions_zero_total_width:
  "(\<exists>t. updateDimensions (initWave constructor offset_canvas) (Fin 100) (Fin 0) 200 50 = Inr t \<and>
        start t = PInf \<and> end' t = PInf \<and>
        drawLines t example_series (Fin 1) (Fin 50) (Fin 0) (Fin 0) (Fin 1) = None) \<and>
   (\<exists>t. updateDimensions (initWave constructor example_canvas) (Fin 0) (Fin 0) 200 50 = Inr t \<and>
        start t = Fin 0)"
  by (simp add: updateDimensions_def initWave_def constructor_def offset_canvas_def
        example_canvas_def js_or_def js_truthy_def Let_def drawLines_def drawLineToContext_def
        dl_first_def dl_last_def dl_length_def example_series_def loop_up.simps
        loop_down_infinite_bounds js_sub_def)

section \<open>Export\<close>

text \<open>
  C5 as stated fails: when the platform cannot create the blob it hands \<open>null\<close> to the
  callback, and the callback is \<open>resolve\<close>, so the promise is fulfilled with \<open>null\<close>; it
  is not rejected.
\<close>

theorem getImage_blob_null_counterexample:
  "getImage (\<lambda>el f q. Inr ''data:,'') (\<lambda>el f q. Inr None) example_tile
       ''image/png'' (Fin (92 / 100)) ''blob'' = Inr (Promise (Fulfilled None)) \<and>
   (\<forall>err. getImage (\<lambda>el f q. Inr ''data:,'') (\<lambda>el f q. Inr None) example_tile
       ''image/png'' (Fin (92 / 100)) ''blob'' \<noteq> Inr (Promise (Rejected err)))"
  by (simp add: getImage_def example_tile_def initWave_def)

text \<open>
  C5, amended: with type \<open>dataURL\<close>, \<open>getImage\<close> returns the string of \<open>toDataURL\<close> and
  nothing else, and raises exactly when the element is missing or \<open>toDataURL\<close> raises.
  With type \<open>blob\<close> it always returns a promise (never bytes, never an exception); the
  promise is fulfilled with whatever \<open>toBlob\<close> hands to its callback, a blob or \<open>null\<close>,
  and it is rejected only when the executor raises, that is when the element is missing
  or \<open>toBlob\<close> raises at the call.  With any other type it returns \<open>undefined\<close>.
\<close>

theorem getImage_modes:
  "(\<forall>r. getImage toDataURL toBlob e format quality ''dataURL'' = Inr r \<longrightarrow>
        (\<exists>el url. wave e = Some el \<and> toDataURL el format quality = Inr url \<and> r = DataURL url)) \<and>
   (\<forall>err. getImage toDataURL toBlob e format quality ''dataURL'' = Inl err \<longrightarrow>
        wave e = None \<and> err = TypeError \<or>
        (\<exists>el. wave e = Some el \<and> toDataURL el format quality = Inl err)) \<and>
   (\<exists>p. getImage toDataURL toBlob e format quality ''blob'' = Inr (Promise p)) \<and>
   (\<forall>el b. wave e = Some el \<and> toBlob el format quality = Inr b \<longrightarrow>
        getImage toDataURL toBlob e format quality ''blob'' = Inr (Promise (Fulfilled b))) \<and>
   (\<forall>err. getImage toDataURL toBlob e format quality ''blob'' = Inr (Promise (Rejected err)) \<longrightarrow>
        wave e = None \<and> err = TypeError \<or>
        (\<exists>el. wave e = Some el \<and> toBlob el format quality = Inl err)) \<and>
   (type \<noteq> ''blob'' \<and> type \<noteq> ''dataURL'' \<longrightarrow>
        getImage toDataURL toBlob e format quality type = Inr Undefined)"
  by (auto simp: getImage_def split: option.splits sum.splits)

theorem getImage_modes_witness:
  "getImage (\<lambda>el f q. Inr ''data:,'') (\<lambda>el f q. Inr (Some [137, 80, 78, 71])) example_tile
       ''image/png'' (Fin (92 / 100)) ''dataURL'' = Inr (DataURL ''data:,'') \<and>
   getImage (\<lambda>el f q. Inr ''data:,'') (\<lambda>el f q. Inr (Some [137, 80, 78, 71])) example_tile
       ''image/png'' (Fin (92 / 100)) ''blob'' = Inr (Promise (Fulfilled (Some [137, 80, 78, 71]))) \<and>
   getImage (\<lambda>el f q. Inr ''data:,'') (\<lambda>el f q. Inl (DOMException ''SecurityError'')) example_tile
       ''image/png'' (Fin (92 / 100)) ''blob'' =
     Inr (Promise (Rejected (DOMException ''SecurityError'')))"
  using getImage_modes
    [of "\<lambda>el f q. Inr ''data:,''" "\<lambda>el f q. Inr (Some [137, 80, 78, 71])" example_tile
        "''image/png''" "Fin (92 / 100)"]
  by (simp add: getImage_def example_tile_def initWave_def)

section \<open>The waveform line\<close>

text \<open>With integer bounds the loops run over the integers between them.\<close>

lemma loop_up_ints:
  "loop_up body (Fin (real_of_int n)) (Fin (real_of_int m)) s =
     Some (fold body (map (\<lambda>k. Fin (real_of_int k)) [m..n - 1]) s)"
proof (induction "nat (n - m)" arbitrary: m s)
  case 0
  then have "n \<le> m" by simp
  then show ?case by (subst loop_up.simps) simp
next
  case (Suc k)
  then have lt: "m < n" and k: "k = nat (n - (m + 1))" by linarith+
  from lt have unroll: "[m..n - 1] = m # [m + 1..n - 1]" by (simp add: upto_rec1)
  from lt have "loop_up body (Fin (real_of_int n)) (Fin (real_of_int m)) s =
      loop_up body (Fin (real_of_int n)) (Fin (real_of_int (m + 1)))
        (body (Fin (real_of_int m)) s)"
    by (subst loop_up.simps) simp
  also have "\<dots> = Some (fold body (map (\<lambda>k. Fin (real_of_int k)) [m + 1..n - 1])
      (body (Fin (real_of_int m)) s))"
    by (rule Suc.hyps(1)[OF k])
  finally show ?case by (simp add: unroll)
qed

lemma loop_down_ints:
  "loop_down body (Fin (real_of_int m)) (Fin (real_of_int j)) s =
     Some (fold body (map (\<lambda>k. Fin (real_of_int k)) (rev [m..j])) s)"
proof (induction "nat (j + 1 - m)" arbitrary: j s)
  case 0
  then have "j < m" by simp
  then show ?case by (subst loop_down.simps) (simp add: js_ge_def js_le_def)
next
  case (Suc k)
  then have le: "m \<le> j" and k: "k = nat (j - 1 + 1 - m)" by linarith+
  from le have unroll: "[m..j] = [m..j - 1] @ [j]" by (simp add: upto_rec2)
  from le have "loop_down body (Fin (real_of_int m)) (Fin (real_of_int j)) s =
      loop_down body (Fin (real_of_int m)) (Fin (real_of_int (j - 1)))
        (body (Fin (real_of_int j)) s)"
    by (subst loop_down.simps) (simp add: js_ge_def js_le_def js_sub_def)
  also have "\<dots> = Some (fold body (map (\<lambda>k. Fin (real_of_int k)) (rev [m..j - 1]))
      (body (Fin (real_of_int j)) s))"
    by (rule Suc.hyps(1)[OF k])
  finally show ?case by (simp add: unroll)
qed

lemma ex_first: "dl_first example_tile example_series = Fin 0"
  by (simp add: dl_first_def dl_length_def example_series_def example_tile_def
        initWave_def constructor_def)

lemma ex_last: "dl_last example_tile example_series = Fin 3"
  by (simp add: dl_last_def dl_length_def example_series_def example_tile_def
        initWave_def constructor_def)

text \<open>
  C3 as stated fails: on the stated input \<open>last\<close> is \<open>round(2 * 1) + 1 = 3\<close>, so the scale
  is \<open>100 / (3 - 0 - 1) = 50\<close> and not 100.
\<close>

theorem example_scale_counterexample:
  "dl_scale example_canvas example_tile example_series \<noteq> Fin 100"
  by (simp add: dl_scale_def ex_first ex_last js_sub_def example_canvas_def)

text \<open>
  C3, amended: for the series \<open>[1, -1, 0.5, -0.5]\<close>, \<open>absmax = 1\<close>, \<open>halfH = 50\<close>,
  \<open>offsetY = 0\<close>, a tile spanning 0 to 1 and a surface 100 wide, the scale is 50, and the
  path filled starts on the zero line at \<open>(0, 50)\<close>, puts the first sample's top vertex at
  \<open>y = 0\<close> and its bottom vertex at \<open>y = 100\<close>; the three indices 0, 1, 2 are drawn 50
  pixels apart, the index past the end read as amplitude 0.
\<close>

theorem example_waveform_path:
  "dl_scale example_canvas example_tile example_series = Fin 50 \<and>
   drawLineToContext example_tile (Some (getContext example_canvas)) example_series
       (Fin 1) (Fin 50) (Fin 0) (Fin 0) (Fin 1) =
     Some (Inr (Some ((getContext example_canvas)
       \<lparr>path := [MoveTo 0 50, LineTo 0 0,
                 LineTo (1 / 2) 0, LineTo (101 / 2) 25, LineTo (201 / 2) 50,
                 LineTo (201 / 2) 50, LineTo (101 / 2) 75, LineTo (1 / 2) 100,
                 LineTo 0 100, ClosePath],
        painted := [FillPath [MoveTo 0 50, LineTo 0 0,
                 LineTo (1 / 2) 0, LineTo (101 / 2) 25, LineTo (201 / 2) 50,
                 LineTo (201 / 2) 50, LineTo (101 / 2) 75, LineTo (1 / 2) 100,
                 LineTo 0 100, ClosePath] (Color ''#000000'')]\<rparr>)))"
proof -
  have sc: "dl_scale example_canvas example_tile example_series = Fin 50"
    by (simp add: dl_scale_def ex_first ex_last js_sub_def example_canvas_def)
  have w: "wave example_tile = Some example_canvas" and hp: "halfPixel example_tile = Fin (1 / 2)"
    by (simp_all add: example_tile_def initWave_def)
  have pk: "peak_at example_series (Fin 0) = Fin 1" "peak_at example_series (Fin 1) = Fin (- 1)"
    "peak_at example_series (Fin 2) = Fin (1 / 2)" "peak_at example_series (Fin 3) = Fin (- (1 / 2))"
    "peak_at example_series (Fin 4) = Fin 0" "peak_at example_series (Fin 5) = Fin 0"
    by (simp_all add: peak_at_def example_series_def js_or_def js_truthy_def)
  show ?thesis
    by (simp add: sc drawLineToContext_def w hp ex_first ex_last pk js_sub_def
          loop_up.simps loop_down.simps js_ge_def js_le_def
          getContext_def beginPath_def moveTo_Fin lineTo_Fin closePath_def fill_def)
qed

lemma dl_first_Fin:
  "start e = Fin s \<Longrightarrow>
   dl_first e peaks = Fin (real_of_int \<lfloor>real (length peaks) / 2 * s + 1 / 2\<rfloor>)"
  by (simp add: dl_first_def dl_length_def)

lemma dl_last_Fin:
  "end' e = Fin t \<Longrightarrow>
   dl_last e peaks = Fin (real_of_int (\<lfloor>real (length peaks) / 2 * t + 1 / 2\<rfloor> + 1))"
  by (simp add: dl_last_def dl_length_def)











lemma zero_span_scale:
  "js_mul (Fin 0)
     (js_div (Fin w) (js_sub (js_sub (Fin (real_of_int (r + 1))) (Fin (real_of_int r))) (Fin 1))) = NaN"
  by (simp add: js_sub_def)

lemma drawLineToContext_zero_span:
  assumes "start e = Fin s" and "end' e = Fin s" and "wave e = Some el"
  shows "drawLineToContext e ctx peaks absmax halfH offsetY a b =
         Some (Inr (map_option beginPath ctx))"
proof (cases ctx)
  case None
  then show ?thesis by (simp add: drawLineToContext_def)
next
  case (Some c)
  obtain r where f: "dl_first e peaks = Fin (real_of_int r)"
    and l: "dl_last e peaks = Fin (real_of_int (r + 1))"
    using dl_first_Fin[OF assms(1)] dl_last_Fin[OF assms(2)] by blast
  have l1: "js_sub (Fin (real_of_int (r + 1))) (Fin 1) = Fin (real_of_int r)"
    by (simp add: js_sub_def)
  have z: "js_sub (Fin (real_of_int r)) (Fin (real_of_int r)) = Fin 0"
    by (simp add: js_sub_def)
  have x: "js_mul (Fin 0) (dl_scale el e peaks) = NaN"
    unfolding dl_scale_def f l by (rule zero_span_scale)
  have up: "[r..r + 1 - 1] = [r]" and down: "rev [r..r] = [r]" by simp_all
  have nan: "js_add NaN (halfPixel e) = NaN" by simp
  show ?thesis
    unfolding drawLineToContext_def Some assms(3) f l Let_def l1 z x loop_up_ints
      loop_down_ints up down
    by (simp only: option.case list.map fold.simps z x nan moveTo_NaN lineTo_NaN o_apply id_apply)
       (simp add: closePath_def fill_def beginPath_def)
qed

text \<open>
  C6: on a tile whose span has length zero (\<open>start = end\<close>, finite) and whose wave
  element is attached, \<open>drawLines\<close> returns without an error; the division by zero
  yields \<open>Infinity\<close> or NaN, every x coordinate passed to the context is NaN, so each
  \<open>moveTo\<close> and \<open>lineTo\<close> is ignored and the path filled is empty.  The only change is
  that the current path of each surface drawn to is reset; nothing is added to the paint
  operations of either surface.
\<close>

theorem zero_length_span_draws_nothing:
  assumes "start e = Fin s" and "end' e = Fin s" and "wave e = Some el"
  shows "drawLines e peaks absmax halfH offsetY a b =
           Some (Inr (e\<lparr>waveCtx := map_option beginPath (waveCtx e),
                        progressCtx := (if hasProgressCanvas e
                                        then map_option beginPath (progressCtx e)
                                        else progressCtx e)\<rparr>)) \<and>
         (\<forall>e'. drawLines e peaks absmax halfH offsetY a b = Some (Inr e') \<longrightarrow>
            map_option painted (waveCtx e') = map_option painted (waveCtx e) \<and>
            map_option painted (progressCtx e') = map_option painted (progressCtx e) \<and>
            map_option path (waveCtx e') = map_option (\<lambda>c. []) (waveCtx e))"
proof -
  let ?e1 = "e\<lparr>waveCtx := map_option beginPath (waveCtx e)\<rparr>"
  have e1: "start ?e1 = Fin s" "end' ?e1 = Fin s" "wave ?e1 = Some el"
    using assms by simp_all
  have res: "drawLines e peaks absmax halfH offsetY a b =
           Some (Inr (e\<lparr>waveCtx := map_option beginPath (waveCtx e),
                        progressCtx := (if hasProgressCanvas e
                                        then map_option beginPath (progressCtx e)
                                        else progressCtx e)\<rparr>))"
    unfolding drawLines_def drawLineToContext_zero_span[OF assms]
    by (simp add: drawLineToContext_zero_span[OF e1])
  show ?thesis
    unfolding res
    by (cases "waveCtx e"; cases "progressCtx e") (auto simp: beginPath_def)
qed

theorem zero_length_span_draws_nothing_witness:
  "start (example_tile\<lparr>start := Fin (1 / 2), end' := Fin (1 / 2)\<rparr>) = Fin (1 / 2) \<and>
   end' (example_tile\<lparr>start := Fin (1 / 2), end' := Fin (1 / 2)\<rparr>) = Fin (1 / 2) \<and>
   wave (example_tile\<lparr>start := Fin (1 / 2), end' := Fin (1 / 2)\<rparr>) = Some example_canvas \<and>
   drawLines (example_tile\<lparr>start := Fin (1 / 2), end' := Fin (1 / 2)\<rparr>) example_series
       (Fin 1) (Fin 50) (Fin 0) (Fin 0) (Fin 1) =
     Some (Inr (example_tile\<lparr>start := Fin (1 / 2), end' := Fin (1 / 2)\<rparr>))"
  using zero_length_span_draws_nothing
    [of "example_tile\<lparr>start := Fin (1 / 2), end' := Fin (1 / 2)\<rparr>" "1 / 2" example_canvas
        example_series "Fin 1" "Fin 50" "Fin 0" "Fin 0" "Fin 1"]
  by (simp add: example_tile_def initWave_def constructor_def getContext_def beginPath_def)

end
